theory Spec2Isabelle
  imports Main "HOL-Library.AList" "HOL-Library.Sublist"
begin

section \<open>metalsmith-permalinks: a shallow embedding of \<open>lib/index.js\<close>\<close>

text \<open>
  The plugin renames the markup documents of a Metalsmith document set so that
  \<open>about.html\<close> becomes \<open>about/index.html\<close>, stages the non-markup documents
  that live beside a renamed document under its new directory, and rewrites the
  document's contents. This theory embeds \<open>lib/index.js\<close> function by function and
  keeps the names of the source.

  Conventions of the embedding.
  \<^item> A JavaScript string is a \<open>string\<close>; the paths of the claims are ASCII.
  \<^item> A JavaScript object whose property order matters (the document set \<open>files\<close>,
    the accumulator \<open>dupes\<close>, the tables \<open>fam\<close> and \<open>moved\<close>) is an association
    list in insertion order: \<open>AList.update\<close> is the assignment \<open>o[k] = v\<close> (an
    existing key keeps its place, a new key is appended), \<open>AList.delete\<close> is
    \<open>delete o[k]\<close>, \<open>map_of\<close> is the lookup of an own property. Keys are taken
    not to be canonical array indices.
  \<^item> The objects are plain objects, so a read \<open>o[k]\<close> that finds no own property
    finds the members of \<open>Object.prototype\<close> (\<open>inherited\<close> below), and the
    assignment \<open>o['__proto__'] = v\<close> stores no property (\<open>assign\<close> below). That
    such an assignment of an object replaces the prototype is not modelled; it would
    matter for the document set alone, were a document stored under that key.
  \<^item> Documents are objects shared by reference between \<open>files\<close> and \<open>dupes\<close>, so
    both hold addresses into a heap of documents.
  \<^item> The host runs on a POSIX platform, where \<open>path\<close> is \<open>path.posix\<close>.
\<close>

subsection \<open>The functions of Node's \<open>path\<close> module that the plugin calls\<close>

definition slash :: char where
  "slash = CHR ''/''"

definition is_slash :: "char \<Rightarrow> bool" where
  "is_slash c = (c = slash)"

definition not_slash :: "char \<Rightarrow> bool" where
  "not_slash c = (if c = slash then False else True)"

text \<open>\<open>lastPart p\<close> is the last component of \<open>p\<close>, its trailing slashes ignored.\<close>

definition lastPart :: "string \<Rightarrow> string" where
  "lastPart p = rev (takeWhile not_slash (dropWhile is_slash (rev p)))"

text \<open>
  \<open>path.dirname\<close>: the scan runs from the last character down to index 1, skips the
  trailing slashes and stops at the first slash after a character that is no slash.
\<close>

definition dirname :: "string \<Rightarrow> string" where
  "dirname p =
     (case p of
        [] \<Rightarrow> ''.''
      | c # cs \<Rightarrow>
          (case dropWhile not_slash (dropWhile is_slash (rev cs)) of
             [] \<Rightarrow> (if c = slash then ''/'' else ''.'')
           | _ # rest \<Rightarrow>
               (if c = slash \<and> rest = [] then ''//'' else c # rev rest)))"

text \<open>
  \<open>path.extname\<close>: from the last dot of the last component to its end; empty when
  there is no dot, when the last dot is the component's first character, and for the
  component \<open>..\<close>.
\<close>

fun lastDot :: "string \<Rightarrow> nat option" where
  "lastDot [] = None"
| "lastDot (c # cs) =
     (case lastDot cs of
        Some i \<Rightarrow> Some (Suc i)
      | None \<Rightarrow> (if c = CHR ''.'' then Some 0 else None))"

definition extname :: "string \<Rightarrow> string" where
  "extname p =
     (let b = lastPart p in
      case lastDot b of
        None \<Rightarrow> []
      | Some i \<Rightarrow> (if i = 0 then [] else if b = ''..'' then [] else drop i b))"

text \<open>
  \<open>path.basename(p, ext)\<close>: the last component, without \<open>ext\<close> when the component
  ends with it and is longer. The plugin only passes \<open>ext = path.extname(p)\<close>, which
  is empty or a proper suffix of the last component.
\<close>

definition basename :: "string \<Rightarrow> string \<Rightarrow> string" where
  "basename p ext =
     (let b = lastPart p in
      if ext = [] then b
      else if ext = p then []
      else if suffix ext b \<and> length ext < length b then take (length b - length ext) b
      else b)"

text \<open>\<open>path.normalize\<close> and \<open>path.join\<close>.\<close>

fun splitSlash :: "string \<Rightarrow> string \<Rightarrow> string list" where
  "splitSlash acc [] = [rev acc]"
| "splitSlash acc (c # cs) =
     (if c = slash then rev acc # splitSlash [] cs else splitSlash (c # acc) cs)"

text \<open>
  \<open>normalizeString\<close>: the segments are pushed on a stack (kept reversed here); empty
  segments and \<open>.\<close> are dropped, \<open>..\<close> pops a segment that is not \<open>..\<close> and is kept
  only when the path may climb above its root.
\<close>

fun normSegs :: "bool \<Rightarrow> string list \<Rightarrow> string list \<Rightarrow> string list" where
  "normSegs up st [] = rev st"
| "normSegs up st (s # ss) =
     (if s = [] then normSegs up st ss
      else if s = ''.'' then normSegs up st ss
      else if s = ''..'' then
        (case st of
           [] \<Rightarrow> normSegs up (if up then [''..''] else []) ss
         | t # ts \<Rightarrow>
             (if t = ''..'' then normSegs up (if up then ''..'' # st else st) ss
              else normSegs up ts ss))
      else normSegs up (s # st) ss)"

fun joinWith :: "string \<Rightarrow> string list \<Rightarrow> string" where
  "joinWith sep [] = []"
| "joinWith sep [s] = s"
| "joinWith sep (s # t # ss) = s @ sep @ joinWith sep (t # ss)"

definition normalize_path :: "string \<Rightarrow> string" where
  "normalize_path p =
     (case p of
        [] \<Rightarrow> ''.''
      | c # cs \<Rightarrow>
          (let isAbsolute = (c = slash);
               trailingSeparator = (last p = slash);
               q = joinWith ''/'' (normSegs (if isAbsolute then False else True) [] (splitSlash [] p))
           in if q = [] then (if isAbsolute then ''/'' else if trailingSeparator then ''./'' else ''.'')
              else (if isAbsolute then ''/'' else []) @ q @ (if trailingSeparator then ''/'' else [])))"

definition nonempty :: "string \<Rightarrow> bool" where
  "nonempty s = (case s of [] \<Rightarrow> False | _ # _ \<Rightarrow> True)"

definition join :: "string list \<Rightarrow> string" where
  "join args =
     (case filter nonempty args of
        [] \<Rightarrow> ''.''
      | a # as \<Rightarrow> normalize_path (joinWith ''/'' (a # as)))"

text \<open>\<open>str.replace(/\\/g, '/')\<close>: every backslash becomes a slash.\<close>

definition forwardSlashes :: "string \<Rightarrow> string" where
  "forwardSlashes s = map (\<lambda>c. if c = CHR 0x5C then slash else c) s"

text \<open>\<open>/html$/.test(s)\<close>.\<close>

definition endsWithHtml :: "string \<Rightarrow> bool" where
  "endsWithHtml s = suffix ''html'' s"

subsection \<open>JavaScript values, documents, configuration\<close>

text \<open>
  The values a metadata field holds. Numbers are integers, arrays hold strings, a
  \<open>Date\<close> is its time value and a \<open>Buffer\<close> its bytes.
\<close>

datatype jsval =
    JUndefined
  | JNull
  | JBool bool
  | JNum int
  | JStr string
  | JDate nat
  | JArr "string list"
  | JBuf string
  | JFunction string
  | JObject

text \<open>
  \<open>JFunction name\<close> is the built-in function of that name and \<open>JObject\<close> the object
  \<open>Object.prototype\<close>; a document holds neither, they are what a read finds on the
  prototype. As a string, a built-in function is what V8 prints for it.
\<close>

fun truthy :: "jsval \<Rightarrow> bool" where
  "truthy JUndefined = False"
| "truthy JNull = False"
| "truthy (JBool b) = b"
| "truthy (JNum n) = (if n = 0 then False else True)"
| "truthy (JStr s) = nonempty s"
| "truthy (JDate d) = True"
| "truthy (JArr xs) = True"
| "truthy (JBuf s) = True"
| "truthy (JFunction n) = True"
| "truthy JObject = True"

fun digits :: "nat \<Rightarrow> string" where
  "digits n =
     (if n < 10 then [''0123456789'' ! n]
      else digits (n div 10) @ [''0123456789'' ! (n mod 10)])"

declare digits.simps [simp del]

text \<open>
  \<open>val.toString()\<close>. The plugin applies it to truthy values that are no \<open>Date\<close>; the
  lines for \<open>undefined\<close>, \<open>null\<close> and a date are \<open>String(val)\<close>, with the date left
  as its time value.
\<close>

fun toString :: "jsval \<Rightarrow> string" where
  "toString (JStr s) = s"
| "toString (JNum n) = (if n < 0 then CHR ''-'' # digits (nat (- n)) else digits (nat n))"
| "toString (JBool b) = (if b then ''true'' else ''false'')"
| "toString (JArr xs) = joinWith '','' xs"
| "toString (JBuf s) = s"
| "toString JUndefined = ''undefined''"
| "toString JNull = ''null''"
| "toString (JDate d) = digits d"
| "toString (JFunction n) = ''function '' @ n @ ''() { [native code] }''"
| "toString JObject = ''[object Object]''"

text \<open>
  The members of \<open>Object.prototype\<close>: \<open>__proto__\<close> reads as the prototype itself,
  \<open>constructor\<close> is the function \<open>Object\<close>, the others are functions of their own
  name.
\<close>

definition inherited :: "string \<Rightarrow> jsval option" where
  "inherited key =
     (if key = ''__proto__'' then Some JObject
      else if key = ''constructor'' then Some (JFunction ''Object'')
      else if key \<in> set [''__defineGetter__'', ''__defineSetter__'', ''hasOwnProperty'',
                           ''__lookupGetter__'', ''__lookupSetter__'', ''isPrototypeOf'',
                           ''propertyIsEnumerable'', ''toString'', ''valueOf'',
                           ''toLocaleString'']
        then Some (JFunction key)
      else None)"

text \<open>
  The assignment \<open>o[key] = v\<close> to a plain object: the setter of \<open>__proto__\<close> stores
  no property.
\<close>

definition assign :: "string \<Rightarrow> 'v \<Rightarrow> (string \<times> 'v) list \<Rightarrow> (string \<times> 'v) list" where
  "assign key v obj = (if key = ''__proto__'' then obj else AList.update key v obj)"

text \<open>
  The reserved field \<open>permalink\<close> is absent, \<open>false\<close> or a string (the data model of
  the specification, section 3).
\<close>

datatype permalink_field = Absent | Off | Link string

record doc =
  contents :: string
  permalink :: permalink_field
  path :: jsval
  slug :: jsval
  metadata :: "(string \<times> jsval) list"

text \<open>
  The property read \<open>data[key]\<close>: an own property of the document, or else a member
  of \<open>Object.prototype\<close>.
\<close>

definition getProp :: "doc \<Rightarrow> string \<Rightarrow> jsval" where
  "getProp data key =
     (if key = ''contents'' then JBuf (contents data)
      else if key = ''permalink'' then
        (case permalink data of Absent \<Rightarrow> JUndefined | Off \<Rightarrow> JBool False | Link s \<Rightarrow> JStr s)
      else if key = ''path'' then path data
      else if key = ''slug'' then slug data
      else
        (case map_of (metadata data) key of
           Some v \<Rightarrow> v
         | None \<Rightarrow> (case inherited key of Some v \<Rightarrow> v | None \<Rightarrow> JUndefined)))"

text \<open>
  \<open>options.date\<close> and \<open>linkset.date\<close>: missing, a format string, or a function from
  dates to strings. \<open>options.slug\<close>: a function, or anything else, which the source
  hands to \<open>slugify\<close> as its options.
\<close>

datatype date_opt = DateMissing | DateFormat string | DateFunction "nat \<Rightarrow> string"

datatype slug_opt = SlugOptions | SlugFunction "string \<Rightarrow> string"

text \<open>
  \<open>options.unique\<close>: falsy, truthy, or a resolver function of the target directory,
  the document set and the document's key.
\<close>

datatype unique_opt =
    UniqueOff
  | UniqueOn
  | UniqueFunction "string \<Rightarrow> (string \<times> doc) list \<Rightarrow> string \<Rightarrow> string"

text \<open>
  A linkset. A \<open>match\<close> entry is a field name with the test of its regular
  expression (strings are compiled by \<open>plugin\<close>); \<open>relative\<close> is \<open>None\<close> when the
  object has no such property.
\<close>

record linkset =
  pattern :: "string option"
  match :: "(string \<times> (jsval \<Rightarrow> bool)) list"
  relative :: "jsval option"
  isDefault :: bool
  date :: date_opt
  slugOpt :: slug_opt

text \<open>
  The options object is itself used as the default linkset, so it extends the
  linkset record. An absent \<open>linksets\<close> is the empty list.
\<close>

record options = linkset +
  linksets :: "linkset list"
  indexFile :: "string option"
  unique :: unique_opt
  duplicatesFail :: bool
  customSlug :: "(doc \<Rightarrow> jsval) option"
  fileFilter :: "(jsval \<Rightarrow> bool) option"
  ignoreFilter :: "(jsval \<Rightarrow> bool) option"

text \<open>The libraries the plugin calls: \<open>moment(date).utc().format(string)\<close> and
  \<open>slugify\<close> behind \<open>slug\<close> (line 20).\<close>

record externals =
  moment_format :: "string \<Rightarrow> nat \<Rightarrow> string"
  slugify :: "string \<Rightarrow> string"

datatype error = TypeError

subsection \<open>Pure helpers of the plugin\<close>

text \<open>\<open>html\<close> (line 218).\<close>

definition html :: "string \<Rightarrow> bool" where
  "html str = (extname str = ''.html'')"

text \<open>The class \<open>\w\<close> of the regular expression \<open>/:(\w+)/g\<close>.\<close>

definition wordChar :: "char \<Rightarrow> bool" where
  "wordChar c =
     (let n = (of_char c :: nat) in
      (48 \<le> n \<and> n \<le> 57) \<or> (65 \<le> n \<and> n \<le> 90) \<or> n = 95 \<or> (97 \<le> n \<and> n \<le> 122))"

text \<open>
  \<open>params\<close> (line 204): the captures of the successive matches of \<open>/:(\w+)/g\<close>, a
  colon followed by the longest run of word characters, which is not empty.
\<close>

function params :: "string \<Rightarrow> string list" where
  "params [] = []"
| "params (c # cs) =
     (if c = CHR '':'' then
        (case takeWhile wordChar cs of
           [] \<Rightarrow> params cs
         | w # ws \<Rightarrow> (w # ws) # params (dropWhile wordChar cs))
      else params cs)"
  by pat_completeness auto
termination
  by (relation "measure length") (auto simp: length_dropWhile_le less_Suc_eq_le)

text \<open>
  \<open>substitute(str, obj)\<close> of the package \<open>substitute\<close>: every match of \<open>/:(\w+)/g\<close>
  is replaced by \<open>obj[prop]\<close>, as a string, and kept when \<open>obj[prop]\<close> is \<open>undefined\<close>.
  \<open>objProp\<close> is that read: the own properties of \<open>obj\<close> are strings, what the
  prototype gives is turned into one.
\<close>

definition objProp :: "(string \<times> string) list \<Rightarrow> string \<Rightarrow> string option" where
  "objProp obj key =
     (case map_of obj key of
        Some v \<Rightarrow> Some v
      | None \<Rightarrow> (case inherited key of Some v \<Rightarrow> Some (toString v) | None \<Rightarrow> None))"

function substitute :: "string \<Rightarrow> (string \<times> string) list \<Rightarrow> string" where
  "substitute [] obj = []"
| "substitute (c # cs) obj =
     (if c = CHR '':'' then
        (case takeWhile wordChar cs of
           [] \<Rightarrow> c # substitute cs obj
         | w # ws \<Rightarrow>
             (case objProp obj (w # ws) of
                Some v \<Rightarrow> v
              | None \<Rightarrow> c # w # ws) @ substitute (dropWhile wordChar cs) obj)
      else c # substitute cs obj)"
  by pat_completeness auto
termination
  by (relation "measure (\<lambda>(s, obj). length s)") (auto simp: length_dropWhile_le less_Suc_eq_le)

text \<open>
  \<open>replace\<close> (line 171). The loop stops with \<open>null\<close> at the first key whose value is
  falsy or an empty array; a \<open>Date\<close> goes through \<open>options.date\<close>, which throws when
  that is no function; every other value is turned into a string and slugged. The keys
  are never empty, so the loop's own test \<open>(key = keys[i++])\<close> only ends it at the end
  of the array.
\<close>

fun unusable :: "jsval \<Rightarrow> bool" where
  "unusable (JArr xs) = (xs = [])"
| "unusable v = (if truthy v then False else True)"

definition slugged :: "externals \<Rightarrow> slug_opt \<Rightarrow> string \<Rightarrow> string" where
  "slugged ext sl text =
     (case sl of SlugFunction f \<Rightarrow> f text | SlugOptions \<Rightarrow> slugify ext text)"

fun replaceLoop ::
  "externals \<Rightarrow> 'a linkset_scheme \<Rightarrow> doc \<Rightarrow> string list \<Rightarrow> (string \<times> string) list
   \<Rightarrow> error + (string \<times> string) list option" where
  "replaceLoop ext opts data [] ret = Inr (Some ret)"
| "replaceLoop ext opts data (key # keys) ret =
     (let val = getProp data key in
      if unusable val then Inr None
      else
        (case val of
           JDate d \<Rightarrow>
             (case date opts of
                DateFunction f \<Rightarrow> replaceLoop ext opts data keys (assign key (f d) ret)
              | DateFormat s \<Rightarrow> Inl TypeError
              | DateMissing \<Rightarrow> Inl TypeError)
         | _ \<Rightarrow>
             replaceLoop ext opts data keys
               (assign key (slugged ext (slugOpt opts) (toString val)) ret)))"

definition replace ::
  "externals \<Rightarrow> string option \<Rightarrow> doc \<Rightarrow> 'a linkset_scheme \<Rightarrow> error + string option" where
  "replace ext pat data opts =
     (case pat of
        None \<Rightarrow> Inr None
      | Some p \<Rightarrow>
          (if p = [] then Inr None
           else
             (case replaceLoop ext opts data (params p) [] of
                Inl e \<Rightarrow> Inl e
              | Inr None \<Rightarrow> Inr None
              | Inr (Some ret) \<Rightarrow> Inr (Some (substitute p ret)))))"

text \<open>\<open>resolve\<close> (line 150).\<close>

definition resolve :: "string \<Rightarrow> string" where
  "resolve str =
     (let base = basename str (extname str);
          ret = dirname str
      in if base = ''index'' then ret else forwardSlashes (join [ret, base]))"

text \<open>
  Line 352, \<open>replace(linkset.pattern, data, linkset) || resolve(file)\<close>: \<open>null\<close> and the
  empty string are the falsy results of \<open>replace\<close>.
\<close>

definition targetDirectory ::
  "externals \<Rightarrow> 'a linkset_scheme \<Rightarrow> doc \<Rightarrow> string \<Rightarrow> error + string" where
  "targetDirectory ext ls data file =
     (case replace ext (pattern ls) data ls of
        Inl e \<Rightarrow> Inl e
      | Inr None \<Rightarrow> Inr (resolve file)
      | Inr (Some p) \<Rightarrow> Inr (if p = [] then resolve file else p))"

text \<open>
  \<open>family\<close> (line 89): the loop over the keys of \<open>files\<close>; \<open>key.indexOf(dir) !== 0\<close>
  says that \<open>dir\<close> is no prefix of \<open>key\<close>.
\<close>

fun familyLoop ::
  "string \<Rightarrow> string \<Rightarrow> (string \<times> nat) list \<Rightarrow> (string \<times> nat) list \<Rightarrow> (string \<times> nat) list" where
  "familyLoop file dir [] ret = ret"
| "familyLoop file dir ((key, a) # rest) ret =
     (if key = file then familyLoop file dir rest ret
      else if prefix dir key then
        (if html key then familyLoop file dir rest ret
         else familyLoop file dir rest (assign (drop (length dir) key) a ret))
      else familyLoop file dir rest ret)"

definition family :: "string \<Rightarrow> (string \<times> nat) list \<Rightarrow> (string \<times> nat) list" where
  "family file fs =
     (let dir = dirname file;
          dir = (if dir = ''.'' then [] else dir)
      in familyLoop file dir fs [])"

text \<open>\<open>folder\<close> (line 121): the same loop with the prefix \<open>path.join(dir, bn, '/')\<close>.\<close>

definition folder :: "string \<Rightarrow> (string \<times> nat) list \<Rightarrow> (string \<times> nat) list" where
  "folder file fs =
     (let bn = basename file (extname file);
          dir = dirname file;
          dir = (if dir = ''.'' then [] else dir);
          sharedPath = join [dir, bn, ''/'']
      in familyLoop file sharedPath fs [])"

text \<open>
  The repository holds a second, older copy of the plugin (\<open>src/unnamed/part_000\<close>).
  Its \<open>family\<close> returns the empty object for a document of the root directory, with
  the comment that such a document would otherwise duplicate the whole file system,
  and it does not leave the markup documents out.
\<close>

fun familyLoop_part_000 ::
  "string \<Rightarrow> string \<Rightarrow> (string \<times> nat) list \<Rightarrow> (string \<times> nat) list \<Rightarrow> (string \<times> nat) list" where
  "familyLoop_part_000 file dir [] ret = ret"
| "familyLoop_part_000 file dir ((key, a) # rest) ret =
     (if key = file then familyLoop_part_000 file dir rest ret
      else if prefix dir key
        then familyLoop_part_000 file dir rest (assign (drop (length dir) key) a ret)
      else familyLoop_part_000 file dir rest ret)"

definition family_part_000 :: "string \<Rightarrow> (string \<times> nat) list \<Rightarrow> (string \<times> nat) list" where
  "family_part_000 file fs =
     (let dir = dirname file in
      if dir = ''.'' then [] else familyLoop_part_000 file dir fs [])"

subsection \<open>\<open>String.prototype.replace\<close> with a string pattern, and \<open>relink\<close>\<close>

text \<open>
  \<open>content.replace(from, to)\<close> with a string \<open>from\<close> replaces the first occurrence of
  \<open>from\<close> only. In the replacement, \<open>$$\<close> stands for a dollar, \<open>$&\<close> for the matched
  text, \<open>$`\<close> for the text before the match and \<open>$'\<close> for the text after it; a string
  pattern has no groups, so every other dollar stands for itself.
\<close>

fun splitFirst :: "string \<Rightarrow> string \<Rightarrow> (string \<times> string) option" where
  "splitFirst pat [] = (if pat = [] then Some ([], []) else None)"
| "splitFirst pat (c # cs) =
     (if prefix pat (c # cs) then Some ([], drop (length pat) (c # cs))
      else
        (case splitFirst pat cs of
           None \<Rightarrow> None
         | Some (front, back) \<Rightarrow> Some (c # front, back)))"

fun getSubstitution :: "string \<Rightarrow> string \<Rightarrow> string \<Rightarrow> string \<Rightarrow> string" where
  "getSubstitution matched front back [] = []"
| "getSubstitution matched front back [c] = [c]"
| "getSubstitution matched front back (c # d # r) =
     (if c = CHR ''$'' then
        (if d = CHR ''$'' then CHR ''$'' # getSubstitution matched front back r
         else if d = CHR ''&'' then matched @ getSubstitution matched front back r
         else if d = CHR 0x60 then front @ getSubstitution matched front back r
         else if d = CHR 0x27 then back @ getSubstitution matched front back r
         else c # getSubstitution matched front back (d # r))
      else c # getSubstitution matched front back (d # r))"

definition jsReplace :: "string \<Rightarrow> string \<Rightarrow> string \<Rightarrow> string" where
  "jsReplace content from to =
     (case splitFirst from content of
        None \<Rightarrow> content
      | Some (front, back) \<Rightarrow> front @ getSubstitution from front back to @ back)"

text \<open>
  \<open>relink\<close> (line 38). The loop runs over the keys of \<open>moved\<close> and calls each key
  \<open>to\<close> and its value \<open>from\<close>. The contents are text, which
  \<open>Buffer.from(contents.toString())\<close> gives back byte for byte.
\<close>

fun relinkLoop :: "(string \<times> string) list \<Rightarrow> string \<Rightarrow> string" where
  "relinkLoop [] content = content"
| "relinkLoop ((to, from) # rest) content = relinkLoop rest (jsReplace content from to)"

definition relink :: "doc \<Rightarrow> (string \<times> string) list \<Rightarrow> doc" where
  "relink data moved = data\<lparr>contents := relinkLoop moved (contents data)\<rparr>"

subsection \<open>\<open>normalize\<close>, \<open>plugin\<close> and \<open>findLinkset\<close>\<close>

text \<open>
  The argument of \<open>plugin\<close>: a pattern string, a falsy value, or an options object.
  \<open>emptyOptions\<close> is the object \<open>{}\<close>.
\<close>

datatype options_arg = OptString string | OptFalsy | OptObject options

definition emptyOptions :: options where
  "emptyOptions =
     \<lparr>pattern = None, match = [], relative = None, isDefault = False,
      date = DateMissing, slugOpt = SlugOptions,
      linksets = [], indexFile = None, unique = UniqueOff, duplicatesFail = False,
      customSlug = None, fileFilter = None, ignoreFilter = None\<rparr>"

text \<open>\<open>format\<close> (line 77).\<close>

definition format :: "externals \<Rightarrow> string \<Rightarrow> nat \<Rightarrow> string" where
  "format ext string = (\<lambda>d. moment_format ext string d)"

text \<open>\<open>normalize\<close> (line 54).\<close>

definition normalize_opts :: "externals \<Rightarrow> options_arg \<Rightarrow> options" where
  "normalize_opts ext arg =
     (let options = (case arg of
                       OptString s \<Rightarrow> emptyOptions\<lparr>pattern := Some s\<rparr>
                     | OptFalsy \<Rightarrow> emptyOptions
                     | OptObject obj \<Rightarrow> obj);
          options = options\<lparr>date :=
                      (case date options of
                         DateFormat s \<Rightarrow> DateFunction (format ext s)
                       | DateMissing \<Rightarrow> DateFunction (format ext ''YYYY/MM/DD'')
                       | DateFunction f \<Rightarrow> DateFunction (format ext ''YYYY/MM/DD''))\<rparr>;
          options = options\<lparr>relative :=
                      (case relative options of
                         Some v \<Rightarrow> Some v
                       | None \<Rightarrow> Some (JBool True))\<rparr>
      in options)"

text \<open>
  What \<open>plugin\<close> (line 233) computes before it returns the transform: the normalized
  options and the default linkset, the first linkset marked \<open>isDefault\<close> or else the
  options themselves. The accumulator \<open>dupes\<close> is created here too (line 254); it is
  part of the state below.
\<close>

record env =
  ext :: externals
  opts :: options
  defaultLinkset :: linkset

definition plugin :: "externals \<Rightarrow> options_arg \<Rightarrow> env" where
  "plugin e arg =
     (let options = normalize_opts e arg in
      \<lparr>ext = e, opts = options,
       defaultLinkset =
         (case find isDefault (linksets options) of
            Some ls \<Rightarrow> ls
          | None \<Rightarrow> linkset.truncate options)\<rparr>)"

text \<open>
  The callback of \<open>reduce\<close> in \<open>findLinkset\<close> (line 258). Once \<open>sofar\<close> is false no
  test runs any more. When the regular expression fails on a truthy value that has
  \<open>indexOf\<close>, the source calls \<open>includes\<close> with the regular expression: a string and a
  \<open>Buffer\<close> throw a \<open>TypeError\<close>, an array of strings does not contain it.
\<close>

fun matchAll :: "doc \<Rightarrow> (string \<times> (jsval \<Rightarrow> bool)) list \<Rightarrow> bool \<Rightarrow> error + bool" where
  "matchAll file [] sofar = Inr sofar"
| "matchAll file ((key, test) # rest) sofar =
     (if sofar then
        (if test (getProp file key) then matchAll file rest True
         else
           (case getProp file key of
              JStr s \<Rightarrow> (if s = [] then matchAll file rest False else Inl TypeError)
            | JBuf s \<Rightarrow> Inl TypeError
            | _ \<Rightarrow> matchAll file rest False))
      else matchAll file rest sofar)"

fun findFirst :: "doc \<Rightarrow> linkset list \<Rightarrow> error + linkset option" where
  "findFirst file [] = Inr None"
| "findFirst file (ls # rest) =
     (case matchAll file (match ls) True of
        Inl e \<Rightarrow> Inl e
      | Inr ok \<Rightarrow> (if ok then Inr (Some ls) else findFirst file rest))"

definition findLinkset :: "env \<Rightarrow> doc \<Rightarrow> error + linkset" where
  "findLinkset en file =
     (case findFirst file (linksets (opts en)) of
        Inl e \<Rightarrow> Inl e
      | Inr (Some ls) \<Rightarrow> Inr ls
      | Inr None \<Rightarrow> Inr (defaultLinkset en))"

subsection \<open>The state of a run\<close>

text \<open>
  \<open>files\<close> is the document set of the running call, \<open>heap\<close> holds the documents,
  \<open>dupes\<close> is the accumulator of the closure of \<open>plugin\<close> (line 254). \<open>immediates\<close>
  are the calls of \<open>done\<close> queued by \<open>setImmediate\<close> and not yet run, \<open>calls\<close> the
  calls of \<open>done\<close> made so far, each with its error argument (\<open>None\<close> for \<open>done()\<close>).
\<close>

record state =
  files :: "(string \<times> nat) list"
  heap :: "nat \<Rightarrow> doc"
  dupes :: "(string \<times> nat) list"
  immediates :: "string option list"
  calls :: "string option list"

definition initialState :: "(nat \<Rightarrow> doc) \<Rightarrow> state" where
  "initialState h = \<lparr>files = [], heap = h, dupes = [], immediates = [], calls = []\<rparr>"

text \<open>
  \<open>files[target]\<close> as a condition: documents are objects and so are the members of
  \<open>Object.prototype\<close>, so it holds when the document set has the key and when the
  key names such a member.
\<close>

definition hasKey :: "(string \<times> nat) list \<Rightarrow> string \<Rightarrow> bool" where
  "hasKey fs k =
     (case map_of fs k of
        Some a \<Rightarrow> True
      | None \<Rightarrow> (case inherited k of Some v \<Rightarrow> True | None \<Rightarrow> False))"

subsection \<open>\<open>defaultUniquePath\<close> (line 285)\<close>

text \<open>
  The \<open>do \<dots> while\<close> loop, with the counter as an argument: the postfix is empty in
  the first round and \<open>-counter\<close> afterwards. The loop ends with a target or with the
  clash it reported to \<open>done\<close>; it need not end at all (an \<open>indexFile\<close> such as
  \<open>../x\<close> gives every round the same target), so it is a partial function.
\<close>

datatype resolved = Target string | Clash string

definition indexName :: "'a options_scheme \<Rightarrow> string" where
  "indexName options =
     (case indexFile options of
        None \<Rightarrow> ''index.html''
      | Some f \<Rightarrow> (if f = [] then ''index.html'' else f))"

definition uniqueOn :: "'a options_scheme \<Rightarrow> bool" where
  "uniqueOn options = (case unique options of UniqueOff \<Rightarrow> False | _ \<Rightarrow> True)"

definition candidate :: "'a options_scheme \<Rightarrow> string \<Rightarrow> nat \<Rightarrow> string" where
  "candidate options targetPath counter =
     join [targetPath @ (if counter = 0 then [] else CHR ''-'' # digits counter),
           indexName options]"

partial_function (option) defaultUniquePath ::
  "options \<Rightarrow> (string \<times> nat) list \<Rightarrow> string \<Rightarrow> nat \<Rightarrow> resolved option" where
  "defaultUniquePath options fs targetPath counter =
     (let target = candidate options targetPath counter in
      if duplicatesFail options \<and> hasKey fs target then Some (Clash target)
      else if uniqueOn options \<and> hasKey fs target
        then defaultUniquePath options fs targetPath (Suc counter)
      else Some (Target target))"

declare defaultUniquePath.simps [code]

definition clashMessage :: "string \<Rightarrow> string" where
  "clashMessage target = ''Permalinks: Clash with another target file '' @ target"

text \<open>
  Line 374, \<open>const out = makeUnique(ppath, files, file, options)\<close>. On a clash the
  default resolver returns what \<open>done\<close> returns; \<open>done\<close> is a completion callback and
  returns \<open>undefined\<close>, which as the property key of line 402 is the string
  \<open>undefined\<close>.
\<close>

definition makeUnique :: "env \<Rightarrow> string \<Rightarrow> string \<Rightarrow> state \<Rightarrow> (string \<times> state) option" where
  "makeUnique en ppath file s =
     (case unique (opts en) of
        UniqueFunction f \<Rightarrow> Some (f ppath (map (\<lambda>(k, a). (k, heap s a)) (files s)) file, s)
      | _ \<Rightarrow>
          (case defaultUniquePath (opts en) (files s) ppath 0 of
             None \<Rightarrow> None
           | Some (Target t) \<Rightarrow> Some (t, s)
           | Some (Clash t) \<Rightarrow>
               Some (''undefined'', s\<lparr>calls := calls s @ [Some (clashMessage t)]\<rparr>)))"

subsection \<open>The body of the loop over the snapshot (lines 311 to 404)\<close>

text \<open>
  Lines 312 to 372: everything before the resolver is called. The body returns early
  (\<open>Return\<close>), throws a \<open>TypeError\<close> (\<open>Throw\<close>), or goes on with the document's address,
  the target directory \<open>ppath\<close> and the family \<open>fam\<close> (\<open>None\<close> for \<open>undefined\<close>).
\<close>

datatype prepared =
    Return state
  | Throw state
  | Proceed state nat string "(string \<times> nat) list option"

text \<open>The \<open>switch\<close> on \<open>linkset.relative\<close> (line 355).\<close>

definition collectFamily ::
  "'a linkset_scheme \<Rightarrow> string \<Rightarrow> (string \<times> nat) list \<Rightarrow> (string \<times> nat) list option" where
  "collectFamily ls file fs =
     (case relative ls of
        Some (JBool b) \<Rightarrow> (if b then Some (family file fs) else None)
      | Some (JStr s) \<Rightarrow> (if s = ''folder'' then Some (folder file fs) else None)
      | _ \<Rightarrow> None)"

definition prepare :: "env \<Rightarrow> string \<Rightarrow> state \<Rightarrow> prepared" where
  "prepare en file s =
     (case map_of (files s) file of
        None \<Rightarrow>
          (case (fileFilter (opts en), ignoreFilter (opts en), customSlug (opts en)) of
             (None, None, None) \<Rightarrow> (if html file then Throw s else Return s)
           | _ \<Rightarrow> Throw s)
      | Some a \<Rightarrow>
          (let data = heap s a;
               inDirectories = True;
               inDirectories = (case fileFilter (opts en) of
                                  Some re \<Rightarrow> re (path data)
                                | None \<Rightarrow> inDirectories);
               inDirectories = (case ignoreFilter (opts en) of
                                  Some re \<Rightarrow> (if re (path data) then False else True)
                                | None \<Rightarrow> inDirectories)
           in if inDirectories then
                (let s = (case customSlug (opts en) of
                            Some f \<Rightarrow>
                              s\<lparr>heap := (heap s)
                                 (a := data\<lparr>slug := (if truthy (slug data) then slug data
                                                        else f data)\<rparr>)\<rparr>
                          | None \<Rightarrow> s);
                     data = heap s a
                 in if html file then
                      (case permalink data of
                         Off \<Rightarrow> Return s
                       | _ \<Rightarrow>
                           (case findLinkset en data of
                              Inl e \<Rightarrow> Throw s
                            | Inr ls \<Rightarrow>
                                (case targetDirectory (ext en) ls data file of
                                   Inl e \<Rightarrow> Throw s
                                 | Inr ppath \<Rightarrow>
                                     (let fam = collectFamily ls file (files s);
                                          ppath = (case permalink data of
                                                     Link p \<Rightarrow> p
                                                   | _ \<Rightarrow> ppath)
                                      in Proceed s a ppath fam))))
                    else Return s)
              else Return s))"

text \<open>
  Lines 378 to 388: every member of the family is staged in \<open>dupes\<close> under its new key
  and entered in \<open>moved\<close>, from its old suffix to its new key.
\<close>

fun stage ::
  "string \<Rightarrow> (string \<times> nat) list \<Rightarrow> (string \<times> nat) list \<times> (string \<times> string) list
   \<Rightarrow> (string \<times> nat) list \<times> (string \<times> string) list" where
  "stage ppath [] (du, moved) = (du, moved)"
| "stage ppath ((key, a) # fam) (du, moved) =
     (let rel = join [ppath, key] in
      stage ppath fam (assign rel a du, assign key rel moved))"

text \<open>Lines 391 to 395: the new value of \<open>data.path\<close>.\<close>

definition newPath :: "string \<Rightarrow> string" where
  "newPath ppath =
     (let p = (if ppath = ''.'' then [] else forwardSlashes ppath) in
      if endsWithHtml p then p else p @ ''/index.html'')"

text \<open>Lines 378 to 402, with the result \<open>out\<close> of the resolver.\<close>

definition finish ::
  "string \<Rightarrow> nat \<Rightarrow> string \<Rightarrow> (string \<times> nat) list option \<Rightarrow> string \<Rightarrow> state \<Rightarrow> state" where
  "finish file a ppath fam out s =
     (let staged = (case fam of
                      None \<Rightarrow> (dupes s, [])
                    | Some f \<Rightarrow> stage ppath f (dupes s, []));
          data = heap s a;
          data = data\<lparr>path := JStr (newPath ppath)\<rparr>;
          data = relink data (snd staged)
      in s\<lparr>dupes := fst staged,
           heap := (heap s)(a := data),
           files := assign out a (AList.delete file (files s))\<rparr>)"

datatype outcome = Returned state | Thrown error state

definition processFile :: "env \<Rightarrow> string \<Rightarrow> state \<Rightarrow> outcome option" where
  "processFile en file s =
     (case prepare en file s of
        Return s1 \<Rightarrow> Some (Returned s1)
      | Throw s1 \<Rightarrow> Some (Thrown TypeError s1)
      | Proceed s1 a ppath fam \<Rightarrow>
          (case makeUnique en ppath file s1 of
             None \<Rightarrow> None
           | Some (out, s2) \<Rightarrow> Some (Returned (finish file a ppath fam out s2))))"

text \<open>\<open>Object.keys(files).forEach\<close>: an exception leaves the loop.\<close>

fun forEach :: "env \<Rightarrow> string list \<Rightarrow> state \<Rightarrow> outcome option" where
  "forEach en [] s = Some (Returned s)"
| "forEach en (file # rest) s =
     (case processFile en file s of
        None \<Rightarrow> None
      | Some (Thrown e s1) \<Rightarrow> Some (Thrown e s1)
      | Some (Returned s1) \<Rightarrow> forEach en rest s1)"

subsection \<open>The transform (line 281)\<close>

definition setImmediate :: "string option \<Rightarrow> state \<Rightarrow> state" where
  "setImmediate arg s = s\<lparr>immediates := immediates s @ [arg]\<rparr>"

text \<open>Lines 408 to 410: \<open>Object.keys(dupes).forEach(dupe => files[dupe] = dupes[dupe])\<close>.\<close>

definition flush :: "state \<Rightarrow> state" where
  "flush s =
     s\<lparr>files :=
         fold (\<lambda>dupe fs. case map_of (dupes s) dupe of
                            Some a \<Rightarrow> AList.update dupe a fs
                          | None \<Rightarrow> fs)
              (map fst (dupes s)) (files s)\<rparr>"

text \<open>
  The synchronous part of the returned function, called with the document set \<open>fs\<close>:
  \<open>done\<close> is queued, the loop runs over the keys the set has at that moment, and the
  accumulator is flushed unless the loop threw.
\<close>

definition transform :: "env \<Rightarrow> (string \<times> nat) list \<Rightarrow> state \<Rightarrow> outcome option" where
  "transform en fs s =
     (let s = setImmediate None (s\<lparr>files := fs\<rparr>) in
      case forEach en (map fst (files s)) s of
        None \<Rightarrow> None
      | Some (Thrown e s1) \<Rightarrow> Some (Thrown e s1)
      | Some (Returned s1) \<Rightarrow> Some (Returned (flush s1)))"

text \<open>
  Once the synchronous part is over, the event loop runs the queued callbacks. A call
  of the transform as the host sees it is the two together.
\<close>

definition runImmediates :: "state \<Rightarrow> state" where
  "runImmediates s = s\<lparr>calls := calls s @ immediates s, immediates := []\<rparr>"

definition invoke :: "env \<Rightarrow> (string \<times> nat) list \<Rightarrow> state \<Rightarrow> outcome option" where
  "invoke en fs s =
     (case transform en fs s of
        None \<Rightarrow> None
      | Some (Thrown e s1) \<Rightarrow> Some (Thrown e (runImmediates s1))
      | Some (Returned s1) \<Rightarrow> Some (Returned (runImmediates s1)))"

subsection \<open>Notions used to state the properties\<close>

text \<open>
  What a call left behind when it returned: the document set, a document, the calls of
  \<open>done\<close>, the accumulator.
\<close>

definition filesAfter :: "outcome option \<Rightarrow> (string \<times> nat) list option" where
  "filesAfter r = (case r of Some (Returned s) \<Rightarrow> Some (files s) | _ \<Rightarrow> None)"

definition docAfter :: "outcome option \<Rightarrow> nat \<Rightarrow> doc option" where
  "docAfter r a = (case r of Some (Returned s) \<Rightarrow> Some (heap s a) | _ \<Rightarrow> None)"

definition callsAfter :: "outcome option \<Rightarrow> string option list option" where
  "callsAfter r = (case r of Some (Returned s) \<Rightarrow> Some (calls s) | _ \<Rightarrow> None)"

definition dupesAfter :: "outcome option \<Rightarrow> (string \<times> nat) list option" where
  "dupesAfter r = (case r of Some (Returned s) \<Rightarrow> Some (dupes s) | _ \<Rightarrow> None)"

text \<open>A further call of the same configured transform, on the state the last call left.\<close>

definition invokeAgain :: "env \<Rightarrow> (string \<times> nat) list \<Rightarrow> outcome option \<Rightarrow> outcome option" where
  "invokeAgain en fs r =
     (case r of
        None \<Rightarrow> None
      | Some (Returned s) \<Rightarrow> invoke en fs s
      | Some (Thrown e s) \<Rightarrow> invoke en fs s)"

text \<open>
  The pattern substitution as the specification words it (section 4.1): a value is
  usable when it is truthy and no empty array; a date is rendered by the date
  formatter, every other value by the slug of its string; the output is the pattern
  with every placeholder replaced by the rendering of its field. The one placeholder
  that names no field is \<open>:__proto__\<close>: what stands for it is the text of the
  prototype it reads.
\<close>

definition usable :: "jsval \<Rightarrow> bool" where
  "usable v = (if unusable v then False else True)"

definition render :: "externals \<Rightarrow> 'a linkset_scheme \<Rightarrow> jsval \<Rightarrow> string" where
  "render e ls v =
     (case v of
        JDate d \<Rightarrow> (case date ls of DateFunction f \<Rightarrow> f d | _ \<Rightarrow> [])
      | _ \<Rightarrow> slugged e (slugOpt ls) (toString v))"

definition rendering :: "externals \<Rightarrow> 'a linkset_scheme \<Rightarrow> doc \<Rightarrow> string \<Rightarrow> string" where
  "rendering e ls data key =
     (if key = ''__proto__'' then toString JObject else render e ls (getProp data key))"

definition patternOutput :: "externals \<Rightarrow> 'a linkset_scheme \<Rightarrow> doc \<Rightarrow> string \<Rightarrow> string" where
  "patternOutput e ls data p =
     substitute p (map (\<lambda>key. (key, rendering e ls data key)) (params p))"

text \<open>
  The dates among the fields of the given names can be rendered: the date formatter of
  the linkset is a function, or none of the fields holds a date.
\<close>

definition isDate :: "jsval \<Rightarrow> bool" where
  "isDate v = (case v of JDate d \<Rightarrow> True | _ \<Rightarrow> False)"

definition noDate :: "doc \<Rightarrow> string \<Rightarrow> bool" where
  "noDate data key = (if isDate (getProp data key) then False else True)"

definition datesRenderable :: "'a linkset_scheme \<Rightarrow> doc \<Rightarrow> string list \<Rightarrow> bool" where
  "datesRenderable ls data keys =
     (case date ls of
        DateFunction f \<Rightarrow> True
      | DateFormat s \<Rightarrow> list_all (noDate data) keys
      | DateMissing \<Rightarrow> list_all (noDate data) keys)"




subsection \<open>Example inputs\<close>

text \<open>
  Stand-ins for the two libraries. The examples only slug strings of lower-case
  letters, digits and hyphens, which \<open>slugify\<close> leaves as they are.
\<close>

definition plainExternals :: externals where
  "plainExternals = \<lparr>moment_format = (\<lambda>string d. string), slugify = (\<lambda>text. text)\<rparr>"

definition page :: "string \<Rightarrow> doc" where
  "page c =
     \<lparr>contents = c, permalink = Absent, path = JUndefined, slug = JUndefined, metadata = []\<rparr>"

text \<open>
  Three pages \<open>a.html\<close>, \<open>b.html\<close>, \<open>c.html\<close>; the first two carry
  \<open>permalink: news\<close>. The options are \<open>{duplicatesFail: true}\<close>.
\<close>

definition newsFiles :: "(string \<times> nat) list" where
  "newsFiles = [(''a.html'', 0), (''b.html'', 1), (''c.html'', 2)]"

definition newsHeap :: "nat \<Rightarrow> doc" where
  "newsHeap a = (if a < 2 then (page ''news'')\<lparr>permalink := Link ''news''\<rparr> else page ''other'')"

definition failEnv :: env where
  "failEnv = plugin plainExternals (OptObject (emptyOptions\<lparr>duplicatesFail := True\<rparr>))"

text \<open>
  A state in which the loop reaches \<open>b.html\<close>: the first page has left \<open>a.html\<close> and
  taken the key \<open>news/index.html\<close>, which the assignment put last.
\<close>

definition newsTaken :: state where
  "newsTaken =
     (initialState newsHeap)
       \<lparr>files := [(''b.html'', 1), (''c.html'', 2), (''news/index.html'', 0)]\<rparr>"

text \<open>
  The page \<open>blog/post.html\<close> with the image \<open>blog/post.png\<close> beside it; the pattern
  \<open>blog/my-post\<close> has no placeholder, so it is the target directory.
\<close>

definition blogFiles :: "(string \<times> nat) list" where
  "blogFiles = [(''blog/post.html'', 0), (''blog/post.png'', 1)]"

definition blogHeap :: "nat \<Rightarrow> doc" where
  "blogHeap a = (if a = 0 then page ''<img src=post.png>'' else page ''PNG'')"

definition blogEnv :: env where
  "blogEnv = plugin plainExternals (OptString ''blog/my-post'')"

text \<open>The page \<open>about.html\<close> alone.\<close>

definition aboutHeap :: "nat \<Rightarrow> doc" where
  "aboutHeap a = page ''About us''"

text \<open>A root-level page among documents in other directories.\<close>

definition siteFiles :: "(string \<times> nat) list" where
  "siteFiles =
     [(''about.html'', 0), (''css/site.css'', 1), (''blog/post.png'', 2), (''blog/post.html'', 3)]"

text \<open>
  The page \<open>blog/post.html\<close> with \<open>permalink: other\<close>, the image \<open>blog/a.png\<close>
  beside it, and a document \<open>other/a.png\<close> of another directory. The options are
  \<open>{duplicatesFail: true, unique: true}\<close>.
\<close>

definition otherFiles :: "(string \<times> nat) list" where
  "otherFiles = [(''blog/post.html'', 0), (''blog/a.png'', 1), (''other/a.png'', 2)]"

definition otherHeap :: "nat \<Rightarrow> doc" where
  "otherHeap a =
     (if a = 0 then (page ''post'')\<lparr>permalink := Link ''other''\<rparr>
      else if a = 1 then page ''image of the blog'' else page ''image of another page'')"

definition strictEnv :: env where
  "strictEnv =
     plugin plainExternals (OptObject (emptyOptions\<lparr>duplicatesFail := True, unique := UniqueOn\<rparr>))"

text \<open>
  Linksets with the patterns \<open>:n\<close> and \<open>blog/:title\<close>, as a configuration gives
  them, without a date formatter, and two pages for them.
\<close>

definition numberLinkset :: linkset where
  "numberLinkset =
     \<lparr>pattern = Some '':n'', match = [], relative = None, isDefault = False,
      date = DateMissing, slugOpt = SlugOptions\<rparr>"

definition titleLinkset :: linkset where
  "titleLinkset =
     \<lparr>pattern = Some ''blog/:title'', match = [], relative = None, isDefault = False,
      date = DateMissing, slugOpt = SlugOptions\<rparr>"

definition zeroPage :: doc where
  "zeroPage = (page ''text'')\<lparr>metadata := [(''n'', JNum 0)]\<rparr>"

definition titledPage :: doc where
  "titledPage = (page ''text'')\<lparr>metadata := [(''title'', JStr ''my-post'')]\<rparr>"

text \<open>A linkset without a date formatter, and a page whose field \<open>date\<close> is a date.\<close>

definition datedLinkset :: linkset where
  "datedLinkset =
     \<lparr>pattern = Some '':date'', match = [], relative = None, isDefault = False,
      date = DateMissing, slugOpt = SlugOptions\<rparr>"

definition datedPage :: doc where
  "datedPage = (page ''text'')\<lparr>metadata := [(''date'', JDate 0)]\<rparr>"





section \<open>Properties\<close>

subsection \<open>Facts shared by the proofs\<close>

lemma prepare_Proceed:
  assumes "prepare en file s = Proceed s1 a ppath fam"
  shows "files s1 = files s \<and> calls s1 = calls s \<and> dupes s1 = dupes s \<and>
         immediates s1 = immediates s \<and> map_of (files s) file = Some a \<and> html file"
  using assms
  by (auto simp: prepare_def Let_def
           split: option.splits if_splits permalink_field.splits sum.splits prod.splits)

lemma prepare_Return:
  assumes "prepare en file s = Return s1"
  shows "files s1 = files s \<and> calls s1 = calls s \<and> dupes s1 = dupes s \<and>
         immediates s1 = immediates s"
  using assms
  by (auto simp: prepare_def Let_def
           split: option.splits if_splits permalink_field.splits sum.splits prod.splits)

lemma fold_flush_lookup:
  "map_of (fold (\<lambda>dupe fs. case map_of d dupe of
                               Some a \<Rightarrow> AList.update dupe a fs
                             | None \<Rightarrow> fs) ks fs) k =
     (if k \<in> set ks
      then (case map_of d k of Some a \<Rightarrow> Some a | None \<Rightarrow> map_of fs k)
      else map_of fs k)"
proof (induction ks arbitrary: fs)
  case Nil
  then show ?case by simp
next
  case (Cons x ks)
  show ?case
    by (cases "map_of d x") (auto simp: Cons.IH update_conv' split: option.splits)
qed

lemma flushed_lookup:
  "map_of (files (flush s)) k =
     (case map_of (dupes s) k of Some a \<Rightarrow> Some a | None \<Rightarrow> map_of (files s) k)"
proof (cases "map_of (dupes s) k")
  case None
  then show ?thesis
    by (simp add: flush_def fold_flush_lookup)
next
  case (Some a)
  then have "k \<in> set (map fst (dupes s))"
    by (metis map_of_eq_None_iff option.distinct(1) set_map)
  with Some show ?thesis
    by (simp add: flush_def fold_flush_lookup)
qed

lemma returned_cases:
  assumes "filesAfter r = Some fs"
  obtains s where "r = Some (Returned s)" and "files s = fs"
  using assms by (auto simp: filesAfter_def split: option.splits outcome.splits)

subsection \<open>The fatal duplicate (claims C1, C6, C9)\<close>

lemma undefined_not_html: "html ''undefined'' = False"
  by code_simp

lemma defaultUniquePath_clash:
  assumes "duplicatesFail options" and "hasKey fs (candidate options targetPath counter)"
  shows "defaultUniquePath options fs targetPath counter =
           Some (Clash (candidate options targetPath counter))"
  using assms by (subst defaultUniquePath.simps) (simp add: Let_def)

lemma defaultUniquePath_first_round:
  assumes "duplicatesFail options"
  shows "defaultUniquePath options fs targetPath 0 =
           Some (if hasKey fs (candidate options targetPath 0)
                 then Clash (candidate options targetPath 0)
                 else Target (candidate options targetPath 0))"
  using assms by (subst defaultUniquePath.simps) (simp add: Let_def)

text \<open>
  Claim C1, evaluated on the code. The claim says that after a clash no further
  document is processed. With \<open>duplicatesFail\<close> on, \<open>b.html\<close> clashes with the key
  \<open>news/index.html\<close> that \<open>a.html\<close> took; \<open>done\<close> receives the error, and the loop
  goes on: \<open>b.html\<close> is stored under the key \<open>undefined\<close>, and \<open>c.html\<close>, which comes
  after it, gets its \<open>path\<close>, is renamed to \<open>c/index.html\<close>, and stages the document
  under \<open>undefined\<close> as its family.
\<close>

theorem pass_continues_after_clash:
  "callsAfter (invoke failEnv newsFiles (initialState newsHeap)) =
     Some [Some ''Permalinks: Clash with another target file news/index.html'', None] \<and>
   filesAfter (invoke failEnv newsFiles (initialState newsHeap)) =
     Some [(''news/index.html'', 0), (''undefined'', 1), (''c/index.html'', 2),
           (''c/undefined'', 1)] \<and>
   map_option path (docAfter (invoke failEnv newsFiles (initialState newsHeap)) 2) =
     Some (JStr ''c/index.html'')"
  by code_simp

text \<open>
  Claim C6, evaluated on the code. The claim says that \<open>done\<close> is called exactly once
  also when the pass meets a fatal duplicate. On the two pages that both resolve to
  \<open>news\<close>, \<open>done\<close> is called with the error during the pass and once more, without an
  error, by the queued callback: twice in all.
\<close>

theorem done_called_twice_on_clash:
  "callsAfter (invoke failEnv [(''a.html'', 0), (''b.html'', 1)] (initialState newsHeap)) =
     Some [Some ''Permalinks: Clash with another target file news/index.html'', None] \<and>
   map_option length
     (callsAfter (invoke failEnv [(''a.html'', 0), (''b.html'', 1)] (initialState newsHeap))) =
     Some 2"
  by code_simp

text \<open>
  Claim C9. When \<open>duplicatesFail\<close> is on, the default resolver is in use, and the loop
  reaches the resolver for a document whose first candidate key is already in the
  document set (the test \<open>files[target]\<close> of line 298 holds), then the body of the
  loop still returns normally: \<open>done\<close> receives the clash message, the document is
  deleted from its old key and stored under the key \<open>undefined\<close>.
\<close>

theorem clash_renames_to_undefined:
  assumes prep: "prepare en file s = Proceed s1 a ppath fam"
      and fail: "duplicatesFail (opts en)"
      and dflt: "unique (opts en) \<in> {UniqueOff, UniqueOn}"
      and clash: "hasKey (files s) (candidate (opts en) ppath 0)"
  shows "\<exists>s2. processFile en file s = Some (Returned s2) \<and>
           map_of (files s) file = Some a \<and>
           files s2 = AList.update ''undefined'' a (AList.delete file (files s)) \<and>
           map_of (files s2) file = None \<and>
           map_of (files s2) ''undefined'' = Some a \<and>
           calls s2 = calls s @ [Some (clashMessage (candidate (opts en) ppath 0))]"
proof -
  from prep have p: "files s1 = files s" "calls s1 = calls s"
    "map_of (files s) file = Some a" "html file"
    using prepare_Proceed by blast+
  from \<open>html file\<close> have ne: "file \<noteq> ''undefined''"
    using undefined_not_html by auto
  have loop: "defaultUniquePath (opts en) (files s1) ppath 0 =
        Some (Clash (candidate (opts en) ppath 0))"
    using fail clash p(1) by (simp add: defaultUniquePath_clash)
  have mu: "makeUnique en ppath file s1 =
        Some (''undefined'',
              s1\<lparr>calls := calls s1 @ [Some (clashMessage (candidate (opts en) ppath 0))]\<rparr>)"
    using dflt loop by (auto simp: makeUnique_def)
  let ?s2 = "finish file a ppath fam ''undefined''
        (s1\<lparr>calls := calls s1 @ [Some (clashMessage (candidate (opts en) ppath 0))]\<rparr>)"
  have run: "processFile en file s = Some (Returned ?s2)"
    using prep mu by (simp add: processFile_def)
  have f: "files ?s2 = AList.update ''undefined'' a (AList.delete file (files s))"
    using p(1) by (simp add: finish_def assign_def Let_def)
  have c: "calls ?s2 = calls s @ [Some (clashMessage (candidate (opts en) ppath 0))]"
    using p(2) by (simp add: finish_def Let_def)
  have gone: "map_of (files ?s2) file = None"
    using ne by (simp add: f update_conv' delete_conv')
  have there: "map_of (files ?s2) ''undefined'' = Some a"
    by (simp add: f update_conv')
  from run p(3) f gone there c show ?thesis by blast
qed

text \<open>
  Claim C9, a witness: the loop reaches \<open>b.html\<close> after \<open>a.html\<close> has taken
  \<open>news/index.html\<close>; \<open>b.html\<close> leaves its key and is stored under \<open>undefined\<close>.
\<close>

theorem clash_renames_to_undefined_witness:
  "prepare failEnv ''b.html'' newsTaken = Proceed newsTaken 1 ''news'' (Some []) \<and>
   duplicatesFail (opts failEnv) \<and>
   unique (opts failEnv) \<in> {UniqueOff, UniqueOn} \<and>
   hasKey (files newsTaken) (candidate (opts failEnv) ''news'' 0) \<and>
   (\<exists>s2. processFile failEnv ''b.html'' newsTaken = Some (Returned s2) \<and>
      files s2 = [(''c.html'', 2), (''news/index.html'', 0), (''undefined'', 1)] \<and>
      calls s2 = [Some ''Permalinks: Clash with another target file news/index.html''])"
proof -
  have hb: "html ''b.html''" by code_simp
  have rb: "resolve ''b.html'' = ''b''" by code_simp
  have fb: "family ''b.html'' [(''b.html'', y), (''c.html'', z), (''news/index.html'', x)] = []"
    for x y z :: nat
    by code_simp
  have h1: "prepare failEnv ''b.html'' newsTaken = Proceed newsTaken 1 ''news'' (Some [])"
    by (simp add: prepare_def newsTaken_def initialState_def failEnv_def plugin_def
          normalize_opts_def emptyOptions_def newsHeap_def page_def Let_def hb rb fb
          findLinkset_def targetDirectory_def replace_def collectFamily_def
          linkset.truncate_def)
  have h2: "duplicatesFail (opts failEnv)" by code_simp
  have h3: "unique (opts failEnv) \<in> {UniqueOff, UniqueOn}"
    by (simp add: failEnv_def plugin_def normalize_opts_def emptyOptions_def Let_def)
  have cand: "candidate (opts failEnv) ''news'' 0 = ''news/index.html''" by code_simp
  have h4: "hasKey (files newsTaken) (candidate (opts failEnv) ''news'' 0)"
    by (simp add: cand newsTaken_def hasKey_def)
  from clash_renames_to_undefined [OF h1 h2 h3 h4] obtain s2 where
    run: "processFile failEnv ''b.html'' newsTaken = Some (Returned s2)" and
    f: "files s2 = AList.update ''undefined'' 1 (AList.delete ''b.html'' (files newsTaken))" and
    c: "calls s2 = calls newsTaken @ [Some (clashMessage (candidate (opts failEnv) ''news'' 0))]"
    by blast
  have "files s2 = [(''c.html'', 2), (''news/index.html'', 0), (''undefined'', 1)]"
    by (simp add: f newsTaken_def)
  moreover have
    "calls s2 = [Some ''Permalinks: Clash with another target file news/index.html'']"
    by (simp add: c cand clashMessage_def newsTaken_def initialState_def)
  ultimately show ?thesis using h1 h2 h3 h4 run by blast
qed

subsection \<open>The family and the rewriting of contents (claims C2, C3)\<close>

text \<open>
  Claim C2, evaluated on the code. The claim says that every occurrence of an old
  relative reference in the contents is replaced by the new location. For
  \<open>blog/post.html\<close> with \<open>blog/post.png\<close> beside it and the target directory
  \<open>blog/my-post\<close>, the table \<open>moved\<close> maps the suffix \<open>/post.png\<close> to
  \<open>blog/my-post/post.png\<close>; \<open>relink\<close> searches for the new key and replaces its
  first occurrence by the old suffix. The reference \<open>post.png\<close> in the page is left
  as it was, and a text that names the new location twice has its first mention turned
  back into the old suffix.
\<close>

theorem relink_keeps_old_reference:
  "filesAfter (invoke blogEnv blogFiles (initialState blogHeap)) =
     Some [(''blog/post.png'', 1), (''blog/my-post/index.html'', 0),
           (''blog/my-post/post.png'', 1)] \<and>
   snd (stage ''blog/my-post'' (family ''blog/post.html'' blogFiles) ([], [])) =
     [(''/post.png'', ''blog/my-post/post.png'')] \<and>
   map_option contents (docAfter (invoke blogEnv blogFiles (initialState blogHeap)) 0) =
     Some ''<img src=post.png>'' \<and>
   contents (relink (page ''see blog/my-post/post.png and blog/my-post/post.png'')
                    [(''/post.png'', ''blog/my-post/post.png'')]) =
     ''see /post.png and blog/my-post/post.png''"
  by code_simp

text \<open>
  Claim C3, evaluated on the code. The claim says that the family of a root-level
  document is empty under the policy \<open>relative\<close>. For \<open>about.html\<close> the directory is
  \<open>.\<close>, which \<open>family\<close> turns into the empty prefix, so that every other document
  that is no markup document is collected, under its whole key. The older copy of the
  plugin returns the empty family for the same input.
\<close>

theorem root_family_not_empty:
  "dirname ''about.html'' = ''.'' \<and>
   family ''about.html'' siteFiles = [(''css/site.css'', 1), (''blog/post.png'', 2)] \<and>
   collectFamily (defaultLinkset (plugin plainExternals OptFalsy)) ''about.html'' siteFiles =
     Some [(''css/site.css'', 1), (''blog/post.png'', 2)] \<and>
   family_part_000 ''about.html'' siteFiles = []"
  by code_simp

subsection \<open>Scenario A (claim C4)\<close>

lemma about_html: "html ''about.html''"
  by code_simp

lemma about_resolve: "resolve ''about.html'' = ''about''"
  by code_simp

lemma about_join: "join [''about'', ''index.html''] = ''about/index.html''"
  by code_simp

lemma about_newPath: "newPath ''about'' = ''about/index.html''"
  by code_simp

lemma family_alone: "family file [(file, a)] = []"
  by (simp add: family_def Let_def)

lemma folder_alone: "folder file [(file, a)] = []"
  by (simp add: folder_def Let_def)

lemma collectFamily_alone:
  "collectFamily ls file [(file, a)] = None \<or> collectFamily ls file [(file, a)] = Some []"
  by (auto simp: collectFamily_def family_alone folder_alone split: option.splits jsval.splits)

lemma finish_no_family:
  assumes "fam = None \<or> fam = Some []"
  shows "finish file a ppath fam out s =
           s\<lparr>heap := (heap s)(a := (heap s a)\<lparr>path := JStr (newPath ppath)\<rparr>),
             files := assign out a (AList.delete file (files s))\<rparr>"
  using assms by (auto simp: finish_def Let_def relink_def)

text \<open>
  Claim C4, a counterexample to the claim as stated. The claim gives the page
  \<open>about.html\<close>, with no pattern configured, the key \<open>about/index.html\<close> and the
  \<open>path\<close> \<open>about\<close>. The key is as claimed; the \<open>path\<close> is \<open>about/index.html\<close>,
  since lines 393 to 395 append \<open>/index.html\<close> to a path that does not end in
  \<open>html\<close>.
\<close>

theorem about_path_is_not_about:
  "filesAfter (invoke (plugin plainExternals OptFalsy) [(''about.html'', 0)]
                 (initialState aboutHeap)) =
     Some [(''about/index.html'', 0)] \<and>
   map_option path
     (docAfter (invoke (plugin plainExternals OptFalsy) [(''about.html'', 0)]
                  (initialState aboutHeap)) 0) =
     Some (JStr ''about/index.html'') \<and>
   map_option path
     (docAfter (invoke (plugin plainExternals OptFalsy) [(''about.html'', 0)]
                  (initialState aboutHeap)) 0) \<noteq>
     Some (JStr ''about'')"
  by code_simp

text \<open>
  Claim C4, amended. For the document set that holds only \<open>about.html\<close>, a page
  without a \<open>permalink\<close> field, and options without pattern, linksets, filters, index
  file name and resolver function, the first call of the transform returns, the page's
  key is \<open>about/index.html\<close>, and its \<open>path\<close> is \<open>about/index.html\<close>.
\<close>

theorem about_scenario:
  assumes pat: "pattern obj = None"
      and ls: "linksets obj = []"
      and ff: "fileFilter obj = None"
      and igf: "ignoreFilter obj = None"
      and ix: "indexFile obj = None"
      and un: "unique obj \<in> {UniqueOff, UniqueOn}"
      and pl: "permalink (h a) = Absent"
  shows "\<exists>s. invoke (plugin e (OptObject obj)) [(''about.html'', a)] (initialState h) =
               Some (Returned s) \<and>
             files s = [(''about/index.html'', a)] \<and>
             path (heap s a) = JStr ''about/index.html''"
proof -
  let ?en = "plugin e (OptObject obj)"
  let ?s0 = "setImmediate None ((initialState h)\<lparr>files := [(''about.html'', a)]\<rparr>)"
  have o: "pattern (opts ?en) = None" "linksets (opts ?en) = []"
    "fileFilter (opts ?en) = None" "ignoreFilter (opts ?en) = None"
    "indexFile (opts ?en) = None" "unique (opts ?en) = unique obj"
    "customSlug (opts ?en) = customSlug obj"
    using pat ls ff igf ix by (simp_all add: plugin_def normalize_opts_def Let_def)
  have dl: "pattern (defaultLinkset ?en) = None"
    using pat ls by (simp add: plugin_def normalize_opts_def Let_def linkset.truncate_def)
  obtain s1 fam where prep: "prepare ?en ''about.html'' ?s0 = Proceed s1 a ''about'' fam"
    and fam: "fam = None \<or> fam = Some []"
    and s1: "files s1 = [(''about.html'', a)]" "dupes s1 = []"
    using pl collectFamily_alone [of "defaultLinkset ?en" "''about.html''" a]
    by (cases "customSlug obj")
       (auto simp: prepare_def o dl Let_def setImmediate_def initialState_def about_html
          findLinkset_def targetDirectory_def replace_def about_resolve)
  have cand: "candidate (opts ?en) ''about'' 0 = ''about/index.html''"
    by (simp add: candidate_def indexName_def o about_join)
  have "defaultUniquePath (opts ?en) (files s1) ''about'' 0 = Some (Target ''about/index.html'')"
    by (subst defaultUniquePath.simps) (simp add: cand s1 hasKey_def inherited_def Let_def)
  then have mu: "makeUnique ?en ''about'' ''about.html'' s1 = Some (''about/index.html'', s1)"
    using un by (auto simp: makeUnique_def o)
  let ?s2 = "finish ''about.html'' a ''about'' fam ''about/index.html'' s1"
  have pf: "processFile ?en ''about.html'' ?s0 = Some (Returned ?s2)"
    using prep mu by (simp add: processFile_def)
  have s2: "files ?s2 = [(''about/index.html'', a)]" "dupes ?s2 = []"
       "path (heap ?s2 a) = JStr ''about/index.html''"
    using fam s1 by (auto simp: finish_no_family about_newPath assign_def)
  have "transform ?en [(''about.html'', a)] (initialState h) = Some (Returned (flush ?s2))"
    using pf by (simp add: transform_def Let_def setImmediate_def)
  then have "invoke ?en [(''about.html'', a)] (initialState h) =
      Some (Returned (runImmediates (flush ?s2)))"
    by (simp add: invoke_def)
  moreover have "files (runImmediates (flush ?s2)) = [(''about/index.html'', a)]"
    using s2 by (simp add: runImmediates_def flush_def)
  moreover have "path (heap (runImmediates (flush ?s2)) a) = JStr ''about/index.html''"
    using s2 by (simp add: runImmediates_def flush_def)
  ultimately show ?thesis by blast
qed

text \<open>Claim C4, a witness: the options \<open>{}\<close> and a page with some text.\<close>

theorem about_scenario_witness:
  "pattern emptyOptions = None \<and> linksets emptyOptions = [] \<and>
   fileFilter emptyOptions = None \<and> ignoreFilter emptyOptions = None \<and>
   indexFile emptyOptions = None \<and> unique emptyOptions \<in> {UniqueOff, UniqueOn} \<and>
   permalink (aboutHeap 0) = Absent \<and>
   (\<exists>s. invoke (plugin plainExternals (OptObject emptyOptions)) [(''about.html'', 0)]
           (initialState aboutHeap) = Some (Returned s) \<and>
        files s = [(''about/index.html'', 0)] \<and>
        path (heap s 0) = JStr ''about/index.html'')"
  using about_scenario [of emptyOptions aboutHeap 0 plainExternals]
  by (simp add: emptyOptions_def aboutHeap_def page_def)

subsection \<open>The accumulator \<open>dupes\<close> and its flush (claims C5, C7)\<close>

lemma stage_keys:
  "fst ` set du \<subseteq> fst ` set (fst (stage ppath fam (du, moved)))"
proof (induction fam arbitrary: du moved)
  case Nil
  then show ?case by simp
next
  case (Cons m fam)
  obtain key a where m: "m = (key, a)" by (cases m)
  have "fst ` set du \<subseteq> fst ` set (assign (join [ppath, key]) a du)"
    by (auto simp: assign_def dom_update)
  also have "\<dots> \<subseteq> fst ` set (fst (stage ppath fam
       (assign (join [ppath, key]) a du, assign key (join [ppath, key]) moved)))"
    by (rule Cons.IH)
  finally show ?case by (simp add: m Let_def)
qed

lemma finish_dupes:
  "fst ` set (dupes s) \<subseteq> fst ` set (dupes (finish file a ppath fam out s))"
  by (cases fam) (simp_all add: finish_def Let_def stage_keys)

lemma makeUnique_dupes:
  assumes "makeUnique en ppath file s = Some (out, s2)"
  shows "dupes s2 = dupes s"
  using assms
  by (auto simp: makeUnique_def split: unique_opt.splits option.splits resolved.splits)

lemma processFile_dupes:
  assumes "processFile en file s = Some (Returned s1)"
  shows "fst ` set (dupes s) \<subseteq> fst ` set (dupes s1)"
proof (cases "prepare en file s")
  case (Return s0)
  with assms have "s1 = s0" by (simp add: processFile_def)
  with Return show ?thesis using prepare_Return by fastforce
next
  case (Throw s0)
  with assms show ?thesis by (simp add: processFile_def)
next
  case (Proceed s0 a ppath fam)
  then have d: "dupes s0 = dupes s" using prepare_Proceed by blast
  from assms Proceed obtain out s2 where
    mu: "makeUnique en ppath file s0 = Some (out, s2)" and
    s1: "s1 = finish file a ppath fam out s2"
    by (auto simp: processFile_def split: option.splits)
  from mu have "dupes s2 = dupes s0" by (rule makeUnique_dupes)
  with d s1 show ?thesis using finish_dupes [of s2] by simp
qed

lemma forEach_dupes:
  assumes "forEach en keys s = Some (Returned s1)"
  shows "fst ` set (dupes s) \<subseteq> fst ` set (dupes s1)"
  using assms
proof (induction keys arbitrary: s)
  case Nil
  then show ?case by simp
next
  case (Cons key rest)
  from Cons.prems obtain s0 where
    step: "processFile en key s = Some (Returned s0)" and
    rest: "forEach en rest s0 = Some (Returned s1)"
    by (auto split: option.splits outcome.splits)
  from step have "fst ` set (dupes s) \<subseteq> fst ` set (dupes s0)" by (rule processFile_dupes)
  also from rest have "\<dots> \<subseteq> fst ` set (dupes s1)" by (rule Cons.IH)
  finally show ?case .
qed

text \<open>
  Claim C5, a counterexample to the claim as stated. The claim says that two successive
  calls of the same configured transform never share pending moves. The first call, on
  the blog page and its image, leaves \<open>blog/my-post/post.png\<close> in the accumulator; a
  second call of the same transform, on a document set that holds only \<open>notes.txt\<close>,
  flushes that entry into its document set.
\<close>

theorem second_call_flushes_earlier_moves:
  "dupesAfter (invoke blogEnv blogFiles (initialState blogHeap)) =
     Some [(''blog/my-post/post.png'', 1)] \<and>
   filesAfter (invokeAgain blogEnv [(''notes.txt'', 2)]
                 (invoke blogEnv blogFiles (initialState blogHeap))) =
     Some [(''notes.txt'', 2), (''blog/my-post/post.png'', 1)] \<and>
   dupesAfter (invokeAgain blogEnv [(''notes.txt'', 2)]
                 (invoke blogEnv blogFiles (initialState blogHeap))) =
     Some [(''blog/my-post/post.png'', 1)]"
  by code_simp

text \<open>
  Claim C5, amended. The accumulator belongs to the configured transform, not to one
  pass. It is empty in the state the transform is configured in. A call that returns
  has run the loop over the snapshot first and has flushed the accumulator into the
  document set afterwards; it keeps every key the accumulator had before the call and
  does not empty it, so the document set it leaves holds every entry of the
  accumulator, those of earlier calls included, and a later call starts from them.
\<close>

theorem dupes_outlive_the_call:
  assumes "invoke en fs s = Some (Returned s')"
  shows "dupes (initialState h) = [] \<and>
         (\<exists>s1. forEach en (map fst fs) (setImmediate None (s\<lparr>files := fs\<rparr>)) =
                  Some (Returned s1) \<and>
               files s' = files (flush s1) \<and> dupes s' = dupes s1) \<and>
         fst ` set (dupes s) \<subseteq> fst ` set (dupes s') \<and>
         (\<forall>k a. map_of (dupes s') k = Some a \<longrightarrow> map_of (files s') k = Some a)"
proof -
  let ?s0 = "setImmediate None (s\<lparr>files := fs\<rparr>)"
  from assms obtain s1 where
    loop: "forEach en (map fst fs) ?s0 = Some (Returned s1)" and
    s': "s' = runImmediates (flush s1)"
    by (auto simp: invoke_def transform_def Let_def setImmediate_def
             split: option.splits outcome.splits)
  have f: "files s' = files (flush s1)" and d: "dupes s' = dupes s1"
    by (simp_all add: s' runImmediates_def flush_def)
  have "fst ` set (dupes ?s0) \<subseteq> fst ` set (dupes s1)"
    using loop by (rule forEach_dupes)
  then have grow: "fst ` set (dupes s) \<subseteq> fst ` set (dupes s')"
    by (simp add: d setImmediate_def)
  have all: "\<forall>k a. map_of (dupes s') k = Some a \<longrightarrow> map_of (files s') k = Some a"
    by (simp add: f d flushed_lookup)
  have "dupes (initialState h) = []" by (simp add: initialState_def)
  with loop f d grow all show ?thesis by blast
qed

text \<open>
  Claim C5, a witness: the second call of the example. It starts from the accumulator
  the first call left, keeps its key, and puts the entry into its own document set.
\<close>

theorem dupes_outlive_the_call_witness:
  "\<exists>s1 s2. invoke blogEnv blogFiles (initialState blogHeap) = Some (Returned s1) \<and>
           invoke blogEnv [(''notes.txt'', 2)] s1 = Some (Returned s2) \<and>
           dupes s1 = [(''blog/my-post/post.png'', 1)] \<and>
           fst ` set (dupes s1) \<subseteq> fst ` set (dupes s2) \<and>
           map_of (files s2) ''blog/my-post/post.png'' = Some 1"
proof -
  have "filesAfter (invokeAgain blogEnv [(''notes.txt'', 2)]
                 (invoke blogEnv blogFiles (initialState blogHeap))) =
     Some [(''notes.txt'', 2), (''blog/my-post/post.png'', 1)]"
    by code_simp
  then obtain s2 where
    again: "invokeAgain blogEnv [(''notes.txt'', 2)]
              (invoke blogEnv blogFiles (initialState blogHeap)) = Some (Returned s2)"
    by (rule returned_cases)
  have d1: "dupesAfter (invoke blogEnv blogFiles (initialState blogHeap)) =
      Some [(''blog/my-post/post.png'', 1)]"
    by code_simp
  then obtain s1 where
    first: "invoke blogEnv blogFiles (initialState blogHeap) = Some (Returned s1)" and
    ds1: "dupes s1 = [(''blog/my-post/post.png'', 1)]"
    by (auto simp: dupesAfter_def split: option.splits outcome.splits)
  from again first have second: "invoke blogEnv [(''notes.txt'', 2)] s1 = Some (Returned s2)"
    by (simp add: invokeAgain_def)
  from dupes_outlive_the_call [OF second] have
    grow: "fst ` set (dupes s1) \<subseteq> fst ` set (dupes s2)" and
    all: "\<forall>k a. map_of (dupes s2) k = Some a \<longrightarrow> map_of (files s2) k = Some a"
    by blast+
  from grow ds1 have "''blog/my-post/post.png'' \<in> fst ` set (dupes s2)" by simp
  then obtain b where b: "map_of (dupes s2) ''blog/my-post/post.png'' = Some b"
    by (metis map_of_eq_None_iff not_Some_eq)
  with all have fb: "map_of (files s2) ''blog/my-post/post.png'' = Some b" by blast
  have "filesAfter (Some (Returned s2)) =
     Some [(''notes.txt'', 2), (''blog/my-post/post.png'', 1)]"
    using again
      \<open>filesAfter (invokeAgain blogEnv [(''notes.txt'', 2)]
                 (invoke blogEnv blogFiles (initialState blogHeap))) =
        Some [(''notes.txt'', 2), (''blog/my-post/post.png'', 1)]\<close>
    by simp
  then have "files s2 = [(''notes.txt'', 2), (''blog/my-post/post.png'', 1)]"
    by (simp add: filesAfter_def)
  with fb have "map_of (files s2) ''blog/my-post/post.png'' = Some 1" by simp
  with first second ds1 grow show ?thesis by blast
qed

text \<open>
  Claim C7, a counterexample to the claim as stated. The claim says that the flush
  never overwrites a key owned by an unmoved, unrelated document unless the
  configuration permits the collision. With \<open>duplicatesFail\<close> and \<open>unique\<close> both on,
  the page \<open>blog/post.html\<close> with \<open>permalink: other\<close> stages its image under
  \<open>other/a.png\<close>. That key is owned by a document that is neither processed nor in
  the page's family, and the flush gives the key to the image.
\<close>

theorem flush_overwrites_unrelated:
  "duplicatesFail (opts strictEnv) \<and> uniqueOn (opts strictEnv) \<and>
   map_of otherFiles ''other/a.png'' = Some 2 \<and>
   family ''blog/post.html'' otherFiles = [(''/a.png'', 1)] \<and>
   filesAfter (invoke strictEnv otherFiles (initialState otherHeap)) =
     Some [(''blog/a.png'', 1), (''other/a.png'', 1), (''other/index.html'', 0)] \<and>
   callsAfter (invoke strictEnv otherFiles (initialState otherHeap)) = Some [None]"
  by code_simp

text \<open>
  Claim C7, amended. When the pending moves are flushed into the document set, every
  staged key receives its staged document, whichever document owned the key and
  whatever the configuration says; a key that is not staged keeps its document, and
  the keys of the document set are those it had together with the staged ones.
\<close>

theorem flush_lookup:
  "map_of (files (flush s)) k =
     (case map_of (dupes s) k of Some a \<Rightarrow> Some a | None \<Rightarrow> map_of (files s) k) \<and>
   fst ` set (files (flush s)) = fst ` set (files s) \<union> fst ` set (dupes s)"
proof -
  have look: "map_of (files (flush s)) x =
      (case map_of (dupes s) x of Some a \<Rightarrow> Some a | None \<Rightarrow> map_of (files s) x)" for x
    by (rule flushed_lookup)
  have "dom (map_of (files (flush s))) = dom (map_of (files s)) \<union> dom (map_of (dupes s))"
    by (auto simp: look dom_def split: option.splits)
  then have "fst ` set (files (flush s)) = fst ` set (files s) \<union> fst ` set (dupes s)"
    by (simp add: dom_map_of_conv_image_fst)
  with look show ?thesis by blast
qed

subsection \<open>Pattern or structural fallback (claim C8)\<close>

lemma datesRenderable_Cons:
  assumes "datesRenderable ls data (key # keys)"
  shows "datesRenderable ls data keys"
  using assms by (simp add: datesRenderable_def split: date_opt.splits)

lemma replaceLoop_rendered:
  assumes "datesRenderable ls data keys"
  shows "replaceLoop e ls data keys ret =
     (if list_all (\<lambda>key. usable (getProp data key)) keys
      then Inr (Some (fold (\<lambda>key r. assign key (render e ls (getProp data key)) r) keys ret))
      else Inr None)"
  using assms
proof (induction keys arbitrary: ret)
  case Nil
  then show ?case by simp
next
  case (Cons key keys)
  from Cons.prems have rest: "datesRenderable ls data keys"
    by (rule datesRenderable_Cons)
  show ?case
  proof (cases "unusable (getProp data key)")
    case True
    then show ?thesis by (simp add: usable_def)
  next
    case False
    show ?thesis
    proof (cases "isDate (getProp data key)")
      case True
      then obtain d where d: "getProp data key = JDate d"
        by (auto simp: isDate_def split: jsval.splits)
      with Cons.prems obtain f where f: "date ls = DateFunction f"
        by (auto simp: datesRenderable_def noDate_def isDate_def split: date_opt.splits)
      show ?thesis
        using False by (simp add: d f usable_def render_def Cons.IH [OF rest])
    next
      case notDate: False
      with False show ?thesis
        by (cases "getProp data key")
           (simp_all add: usable_def render_def isDate_def Cons.IH [OF rest])
    qed
  qed
qed

lemma objProp_fold_assign:
  "objProp (fold (\<lambda>key r. assign key (g key) r) keys ret) x =
     (if x \<in> set keys \<and> x \<noteq> ''__proto__'' then Some (g x) else objProp ret x)"
proof (induction keys arbitrary: ret)
  case Nil
  then show ?case by simp
next
  case (Cons key keys)
  have "objProp (assign key (g key) ret) x =
      (if x = key \<and> x \<noteq> ''__proto__'' then Some (g x) else objProp ret x)"
    by (auto simp: objProp_def assign_def update_conv')
  then show ?case
    by (auto simp: Cons.IH)
qed

lemma objProp_table:
  "objProp (map (\<lambda>key. (key, h key)) keys) x =
     (if x \<in> set keys then Some (h x) else objProp [] x)"
proof -
  have "map_of (map (\<lambda>key. (key, h key)) keys) x = (if x \<in> set keys then Some (h x) else None)"
    by (induction keys) auto
  then show ?thesis by (simp add: objProp_def)
qed

lemma substitute_cong:
  assumes "\<And>x. objProp obj x = objProp obj' x"
  shows "substitute p obj = substitute p obj'"
  using assms
proof (induction p obj rule: substitute.induct)
  case (1 obj)
  then show ?case by simp
next
  case (2 c cs obj)
  then show ?case
    by (auto split: list.splits option.splits)
qed

lemma stored_is_patternOutput:
  "substitute p (fold (\<lambda>key r. assign key (render e ls (getProp data key)) r) (params p) [])
     = patternOutput e ls data p"
  unfolding patternOutput_def
proof (rule substitute_cong)
  fix x
  show "objProp (fold (\<lambda>key r. assign key (render e ls (getProp data key)) r) (params p) []) x =
        objProp (map (\<lambda>key. (key, rendering e ls data key)) (params p)) x"
    by (simp add: objProp_fold_assign objProp_table rendering_def)
       (simp add: objProp_def inherited_def)
qed

text \<open>
  A placeholder may name a member of \<open>Object.prototype\<close>: a page without a field
  \<open>constructor\<close> has the usable value \<open>data['constructor']\<close>, the function
  \<open>Object\<close>.
\<close>

lemma constructor_is_usable:
  "getProp (page c) ''constructor'' = JFunction ''Object'' \<and>
   usable (getProp (page c) ''constructor'')"
  by (simp add: getProp_def page_def inherited_def usable_def)

text \<open>
  Why the dates must be renderable: for a field that holds a date, \<open>replace\<close> calls
  the date formatter of the linkset, and throws when the linkset has none.
\<close>

lemma date_without_formatter_throws:
  "datesRenderable datedLinkset datedPage (params '':date'') = False \<and>
   targetDirectory plainExternals datedLinkset datedPage ''post.html'' = Inl TypeError"
  by code_simp

text \<open>
  Claim C8, a counterexample to the claim as stated. The claim takes the pattern
  output whenever every referenced field is present. The page has the field \<open>n\<close> with
  the value \<open>0\<close>, and the pattern is \<open>:n\<close>, whose output for it is \<open>0\<close>; the target
  directory of \<open>post.html\<close> is the structural fallback \<open>post\<close>, because \<open>replace\<close>
  gives up on every falsy value.
\<close>

theorem zero_field_falls_back:
  "map_of (metadata zeroPage) ''n'' = Some (JNum 0) \<and>
   pattern numberLinkset = Some '':n'' \<and>
   patternOutput plainExternals numberLinkset zeroPage '':n'' = ''0'' \<and>
   resolve ''post.html'' = ''post'' \<and>
   targetDirectory plainExternals numberLinkset zeroPage ''post.html'' = Inr ''post''"
  by code_simp

text \<open>
  Claim C8, amended. For a document processed with a non-empty pattern, where the
  date formatter of the linkset is a function or no field the pattern refers to holds
  a date: if every field the pattern refers to, read as the property \<open>data[key]\<close>,
  holds a truthy value that is no empty array, the target directory is the output of
  the pattern substitution, unless that output is the empty string; if a referred
  field is absent, falsy (\<open>undefined\<close>, \<open>null\<close>, \<open>false\<close>, \<open>0\<close>, the empty string) or
  an empty array, or the output is the empty string, the target directory is the
  structural fallback derived from the document's key. It is never a mix of the two.
\<close>

theorem target_directory_cases:
  assumes "pattern ls = Some p" and "p \<noteq> []" and "datesRenderable ls data (params p)"
  shows "targetDirectory e ls data file =
     Inr (if list_all (\<lambda>key. usable (getProp data key)) (params p) \<and>
             patternOutput e ls data p \<noteq> []
          then patternOutput e ls data p
          else resolve file)"
  using assms(1,2)
  by (simp add: targetDirectory_def replace_def replaceLoop_rendered [OF assms(3)]
        stored_is_patternOutput)

text \<open>
  Claim C8, a witness: a linkset as a configuration gives it, without a date formatter,
  and the pattern \<open>blog/:title\<close>. The page that has a title goes to the pattern output
  \<open>blog/my-post\<close>, and the page whose only field is \<open>n\<close> goes to the fallback
  \<open>blog/post\<close>.
\<close>

theorem target_directory_cases_witness:
  "pattern titleLinkset = Some ''blog/:title'' \<and>
   date titleLinkset = DateMissing \<and>
   datesRenderable titleLinkset titledPage (params ''blog/:title'') \<and>
   datesRenderable titleLinkset zeroPage (params ''blog/:title'') \<and>
   list_all (\<lambda>key. usable (getProp titledPage key)) (params ''blog/:title'') \<and>
   targetDirectory plainExternals titleLinkset titledPage ''blog/post.html'' =
     Inr ''blog/my-post'' \<and>
   targetDirectory plainExternals titleLinkset zeroPage ''blog/post.html'' = Inr ''blog/post''"
proof -
  have p: "pattern titleLinkset = Some ''blog/:title''"
    by (simp add: titleLinkset_def)
  have d: "date titleLinkset = DateMissing"
    by (simp add: titleLinkset_def)
  have ne: "''blog/:title'' \<noteq> []" by simp
  have r1: "datesRenderable titleLinkset titledPage (params ''blog/:title'')"
    by code_simp
  have r2: "datesRenderable titleLinkset zeroPage (params ''blog/:title'')"
    by code_simp
  have ok: "list_all (\<lambda>key. usable (getProp titledPage key)) (params ''blog/:title'')"
    by code_simp
  have out: "patternOutput plainExternals titleLinkset titledPage ''blog/:title'' =
      ''blog/my-post''"
    by code_simp
  have bad: "list_all (\<lambda>key. usable (getProp zeroPage key)) (params ''blog/:title'') = False"
    by code_simp
  have fb: "resolve ''blog/post.html'' = ''blog/post''"
    by code_simp
  have "targetDirectory plainExternals titleLinkset titledPage ''blog/post.html'' =
      Inr ''blog/my-post''"
    using target_directory_cases [OF p ne r1, of plainExternals "''blog/post.html''"]
    by (simp add: ok out del: params.simps)
  moreover have
    "targetDirectory plainExternals titleLinkset zeroPage ''blog/post.html'' = Inr ''blog/post''"
    using target_directory_cases [OF p ne r2, of plainExternals "''blog/post.html''"]
    by (simp add: bad fb del: params.simps)
  ultimately show ?thesis using p d r1 r2 ok by blast
qed

subsection \<open>The default of \<open>relative\<close> (claim C10)\<close>








end
